theory Spec2Isabelle
  imports Main "HOL-Library.Char_ord" "HOL-Library.Sublist"
begin

section \<open>JavaScript strings and the built-ins the component calls\<close>

text \<open>
  The component \<^verbatim>\<open>src/app/wordPuzzleFinder.tsx\<close> works on JavaScript strings. A string is
  modelled as a \<^typ>\<open>string\<close>, one \<^typ>\<open>char\<close> for each code unit, which is exact for ASCII
  text: the four form fields hold ASCII only (the change handlers strip everything
  else), and the dictionary service answers with English words. The case mappings below
  are the ASCII part of \<^verbatim>\<open>toUpperCase\<close> and \<^verbatim>\<open>toLowerCase\<close>; a character outside
  \<^verbatim>\<open>a-z\<close> / \<^verbatim>\<open>A-Z\<close> is left as it is.
\<close>

definition isLowerAZ :: "char \<Rightarrow> bool" where
  \<comment> \<open>the character class \<^verbatim>\<open>[a-z]\<close>\<close>
  "isLowerAZ c = (CHR ''a'' \<le> c \<and> c \<le> CHR ''z'')"

definition isUpperAZ :: "char \<Rightarrow> bool" where
  \<comment> \<open>the character class \<^verbatim>\<open>[A-Z]\<close>\<close>
  "isUpperAZ c = (CHR ''A'' \<le> c \<and> c \<le> CHR ''Z'')"

definition isUpperAZ_or_wildcard :: "char \<Rightarrow> bool" where
  \<comment> \<open>the character class \<^verbatim>\<open>[A-Z?]\<close>\<close>
  "isUpperAZ_or_wildcard c = (isUpperAZ c \<or> c = CHR ''?'')"

definition isDigit :: "char \<Rightarrow> bool" where
  \<comment> \<open>the character class \<^verbatim>\<open>\d\<close>, which is \<^verbatim>\<open>[0-9]\<close>\<close>
  "isDigit c = (CHR ''0'' \<le> c \<and> c \<le> CHR ''9'')"

definition toUpperChar :: "char \<Rightarrow> char" where
  "toUpperChar c = (if isLowerAZ c then char_of (of_char c - (32::nat)) else c)"

definition toLowerChar :: "char \<Rightarrow> char" where
  "toLowerChar c = (if isUpperAZ c then char_of (of_char c + (32::nat)) else c)"

definition toUpperCase :: "string \<Rightarrow> string" where
  "toUpperCase s = map toUpperChar s"

definition toLowerCase :: "string \<Rightarrow> string" where
  "toLowerCase s = map toLowerChar s"

definition truthy :: "string \<Rightarrow> bool" where
  \<comment> \<open>a string in a condition: only the empty string is falsy (\<^verbatim>\<open>"0"\<close> is truthy)\<close>
  "truthy s = (s \<noteq> [])"

definition digitValue :: "char \<Rightarrow> nat" where
  "digitValue c = of_char c - of_char (CHR ''0'')"

definition Number :: "string \<Rightarrow> nat" where
  \<comment> \<open>\<^verbatim>\<open>Number(s)\<close> for a string of decimal digits: its decimal value, and 0 for the
      empty string. The length field, the only argument in the source, never holds
      anything else (see the section on sanitised input); on other strings this
      function says nothing about JavaScript. JavaScript rounds values from \<open>2^53\<close> on;
      every use below compares the result with the length of a string, or asks for a
      string of that length, which from \<open>2^53\<close> on no engine builds: the exact value
      gives the same answer.\<close>
  "Number s = foldl (\<lambda>n c. 10 * n + digitValue c) 0 s"

definition split_empty :: "string \<Rightarrow> string list" where
  \<comment> \<open>\<^verbatim>\<open>s.split("")\<close>: the one-character strings of \<open>s\<close>, in order\<close>
  "split_empty s = map (\<lambda>c. [c]) s"

fun join :: "string \<Rightarrow> string list \<Rightarrow> string" where
  \<comment> \<open>\<^verbatim>\<open>xs.join(sep)\<close>\<close>
  "join sep [] = []"
| "join sep [x] = x"
| "join sep (x # y # ys) = x @ sep @ join sep (y # ys)"

definition str_includes :: "string \<Rightarrow> string \<Rightarrow> bool" where
  \<comment> \<open>\<^verbatim>\<open>w.includes(l)\<close>: \<open>l\<close> occurs in \<open>w\<close> as a contiguous substring\<close>
  "str_includes w l = list_ex (prefix l) (suffixes w)"

section \<open>Data\<close>

text \<open>
  \<^verbatim>\<open>interface WordItem { word: string; defs?: string[] }\<close>: one entry of the service's
  answer.
\<close>

record WordItem =
  word :: string
  defs :: "string list option"

text \<open>
  The component's state, one field for each \<^verbatim>\<open>useState\<close> hook. The field \<^verbatim>\<open>length\<close> of
  the source is \<open>length_str\<close> here: it is a string, and the name \<open>length\<close> is taken.
\<close>

record state =
  letters :: string
  length_str :: string
  pattern :: string
  excludedLetters :: string
  results :: "string list"
  error :: string
  isLoading :: bool

definition initialState :: state where
  "initialState =
     \<lparr>letters = [], length_str = [], pattern = [], excludedLetters = [],
      results = [], error = [], isLoading = False\<rparr>"

text \<open>
  \<^verbatim>\<open>URLSearchParams\<close>: the name/value pairs in the order they were appended.
  \<^verbatim>\<open>params.get(name)\<close> is the first value under that name, which is \<^const>\<open>map_of\<close>.
\<close>

type_synonym URLSearchParams = "(string \<times> string) list"

definition params_append :: "URLSearchParams \<Rightarrow> string \<Rightarrow> string \<Rightarrow> URLSearchParams" where
  "params_append params name v = params @ [(name, v)]"

text \<open>
  What \<^verbatim>\<open>fetch\<close> and \<^verbatim>\<open>response.json()\<close> can do. A value thrown (or a rejected promise)
  is an \<^verbatim>\<open>Error\<close> with its message, or some other value. A response has a status;
  \<^verbatim>\<open>response.ok\<close> is true for the statuses 200 to 299 (the Fetch standard).
  \<open>json\<close> is what \<^verbatim>\<open>await response.json()\<close> gives when the code reads it as
  \<^verbatim>\<open>WordItem[]\<close>: the array, or the exception of a body that is not such an array.
  The environment is a function from the request's parameters (the URL is the constant
  \<^verbatim>\<open>DICTIONARY_API\<close> followed by them) to the outcome of the call.
\<close>

datatype thrown = Error string | NonError

record Response =
  status :: nat
  json :: "thrown + WordItem list"

definition ok :: "Response \<Rightarrow> bool" where
  "ok response = (200 \<le> status response \<and> status response \<le> 299)"

type_synonym fetch = "URLSearchParams \<Rightarrow> thrown + Response"

text \<open>
  What is left to the JavaScript engine: the greatest length a string can have (below
  \<open>2^53\<close> in every engine), and the message of the \<^verbatim>\<open>RangeError\<close> that \<^verbatim>\<open>s.repeat(n)\<close>
  throws when the string asked for would be longer (the message may name the count).
\<close>

record engine =
  maxStringLength :: nat
  rangeErrorMessage :: "nat \<Rightarrow> string"

definition repeat :: "engine \<Rightarrow> string \<Rightarrow> nat \<Rightarrow> thrown + string" where
  \<comment> \<open>\<^verbatim>\<open>s.repeat(n)\<close> for a count \<open>n \<ge> 0\<close> and a non-empty \<open>s\<close> (the source repeats
      the one-character string \<^verbatim>\<open>?\<close>): \<open>n\<close> copies of \<open>s\<close>, or a \<^verbatim>\<open>RangeError\<close> when they
      do not fit into a string\<close>
  "repeat engine s n =
     (if maxStringLength engine < n * length s
      then Inl (Error (rangeErrorMessage engine n))
      else Inr (concat (replicate n s)))"

section \<open>The query builder\<close>

text \<open>
  \<^verbatim>\<open>buildQueryParams\<close>: the parameters, or the \<^verbatim>\<open>RangeError\<close> of \<^verbatim>\<open>"?".repeat(...)\<close>,
  which leaves the function before anything else happens.
\<close>

definition buildQueryParams :: "engine \<Rightarrow> state \<Rightarrow> thrown + URLSearchParams" where
  "buildQueryParams engine s =
     (let params = [] in
      case (if \<not> truthy (pattern s) \<and> truthy (length_str s)
            then repeat engine ''?'' (Number (length_str s))
            else Inr (pattern s)) of
        Inl err \<Rightarrow> Inl err
      | Inr finalPattern \<Rightarrow>
          (let params =
                 (if truthy finalPattern
                  then params_append params ''sp'' (toLowerCase finalPattern)
                  else params);
               params =
                 (if truthy (excludedLetters s)
                  then params_append params ''q''
                         (join '' '' (map (\<lambda>l. ''-'' @ l)
                            (split_empty (toLowerCase (excludedLetters s)))))
                  else params);
               params = params_append params ''max'' ''200'';
               params = params_append params ''md'' ''d''
           in Inr params))"

section \<open>The result filter\<close>

text \<open>
  The expression bound to \<^verbatim>\<open>filteredWords\<close> in \<^verbatim>\<open>fetchWords\<close>:
  \<^verbatim>\<open>data.filter(...).map((item) => item.word.toUpperCase())\<close>.
\<close>

definition keepItem :: "state \<Rightarrow> WordItem \<Rightarrow> bool" where
  \<comment> \<open>the callback of \<^verbatim>\<open>data.filter\<close>\<close>
  "keepItem s item =
     (let w = toUpperCase (word item) in
        (\<not> truthy (length_str s) \<or> length w = Number (length_str s)) \<and>
        (\<not> truthy (letters s) \<or>
           list_all (\<lambda>l. str_includes w l) (split_empty (letters s))) \<and>
        (\<not> truthy (excludedLetters s) \<or>
           \<not> list_ex (\<lambda>l. str_includes w l) (split_empty (excludedLetters s))))"

definition filteredWords :: "state \<Rightarrow> WordItem list \<Rightarrow> string list" where
  "filteredWords s data =
     map (\<lambda>item. toUpperCase (word item)) (filter (keepItem s) data)"

section \<open>Fetching, validation and submission\<close>

text \<open>
  The \<^verbatim>\<open>try\<close> block of \<^verbatim>\<open>fetchWords\<close>, up to the value of \<^verbatim>\<open>filteredWords\<close>:
  \<open>Inl\<close> is what it throws (and the \<^verbatim>\<open>catch\<close> clause receives), \<open>Inr\<close> the filtered
  words it goes on to store.
\<close>

definition fetchWords_try :: "engine \<Rightarrow> fetch \<Rightarrow> state \<Rightarrow> thrown + string list" where
  "fetchWords_try engine fetch s =
     (case buildQueryParams engine s of
        Inl err \<Rightarrow> Inl err
      | Inr queryParams \<Rightarrow>
          (case fetch queryParams of
             Inl err \<Rightarrow> Inl err
           | Inr response \<Rightarrow>
               if status response = 429 then Inl (Error ''API rate limit exceeded'')
               else if \<not> ok response then Inl (Error ''Failed to fetch words'')
               else (case json response of
                       Inl err \<Rightarrow> Inl err
                     | Inr data \<Rightarrow> Inr (filteredWords s data))))"

text \<open>
  \<^verbatim>\<open>fetchWords\<close>: the new state, and the requests it sent to the service (none when
  \<^verbatim>\<open>buildQueryParams\<close> threw, one otherwise). The call is taken as one step (the state
  the closure reads is the state the setters update).
\<close>

definition fetchWords ::
  "engine \<Rightarrow> fetch \<Rightarrow> state \<Rightarrow> state \<times> URLSearchParams list" where
  "fetchWords engine fetch s =
     (let s1 = s\<lparr>isLoading := True\<rparr>;
          s2 = (case fetchWords_try engine fetch s of
                  Inr filtered \<Rightarrow>
                    s1\<lparr>results := filtered,
                       error := (if filtered \<noteq> [] then [] else ''No matches found'')\<rparr>
                | Inl err \<Rightarrow>
                    s1\<lparr>error := (case err of
                                   Error message \<Rightarrow> message
                                 | NonError \<Rightarrow> ''Failed to fetch words'')\<rparr>)
      in (s2\<lparr>isLoading := False\<rparr>,
          (case buildQueryParams engine s of
             Inl err \<Rightarrow> []
           | Inr queryParams \<Rightarrow> [queryParams])))"

definition validateInputs :: "state \<Rightarrow> string" where
  "validateInputs s =
     (if \<not> truthy (letters s) \<and> \<not> truthy (pattern s) \<and> \<not> truthy (length_str s)
      then ''Enter at least one search criteria''
      else if truthy (pattern s) \<and> truthy (length_str s) \<and>
              length (pattern s) \<noteq> Number (length_str s)
      then ''Pattern length must match word length''
      else [])"

definition handleSubmit ::
  "engine \<Rightarrow> fetch \<Rightarrow> state \<Rightarrow> state \<times> URLSearchParams list" where
  "handleSubmit engine fetch s =
     (let validationError = validateInputs s in
      if truthy validationError then (s\<lparr>error := validationError\<rparr>, [])
      else fetchWords engine fetch (s\<lparr>error := []\<rparr>))"

section \<open>The form's events\<close>

text \<open>
  The four \<^verbatim>\<open>onChange\<close> handlers, each applied to the \<^verbatim>\<open>e.target.value\<close> it receives,
  and the form's \<^verbatim>\<open>onSubmit\<close>. \<^verbatim>\<open>v.replace(/[^A-Z]/g, "")\<close> keeps the characters of the
  class and drops the others, which is \<^const>\<open>filter\<close>. The handlers are modelled for every
  input text and every state: what the attributes \<^verbatim>\<open>min\<close>, \<^verbatim>\<open>max\<close> and \<^verbatim>\<open>maxLength\<close> of
  the input elements make a browser refuse is not part of the component's own code.
\<close>

datatype event =
    ChangeLetters string
  | ChangeExcludedLetters string
  | ChangeLength string
  | ChangePattern string
  | Submit

fun step :: "engine \<Rightarrow> fetch \<Rightarrow> state \<Rightarrow> event \<Rightarrow> state" where
  "step engine fetch s (ChangeLetters v) =
     s\<lparr>letters := filter isUpperAZ (toUpperCase v)\<rparr>"
| "step engine fetch s (ChangeExcludedLetters v) =
     s\<lparr>excludedLetters := filter isUpperAZ (toUpperCase v)\<rparr>"
| "step engine fetch s (ChangeLength v) = s\<lparr>length_str := filter isDigit v\<rparr>"
| "step engine fetch s (ChangePattern v) =
     s\<lparr>pattern := filter isUpperAZ_or_wildcard (toUpperCase v)\<rparr>"
| "step engine fetch s Submit = fst (handleSubmit engine fetch s)"

definition run :: "engine \<Rightarrow> fetch \<Rightarrow> event list \<Rightarrow> state" where
  \<comment> \<open>the state after a sequence of events, from the initial render\<close>
  "run engine fetch evs = foldl (step engine fetch) initialState evs"

section \<open>The specification's vocabulary\<close>

text \<open>
  The specification speaks of a \<^verbatim>\<open>SearchConstraints\<close> value: a set of required letters,
  a set of excluded letters, an optional exact length and an optional positional
  pattern. \<open>constraintsOf\<close> reads that value off the component's state: a field is
  absent when its string is empty (falsy), the letters of a field are the characters of
  its string, and the exact length is the number the length field denotes.
\<close>

record SearchConstraints =
  requiredLetters :: "char set"
  excluded :: "char set"
  exactLength :: "nat option"
  positionalPattern :: "string option"

definition constraintsOf :: "state \<Rightarrow> SearchConstraints" where
  "constraintsOf s =
     \<lparr>requiredLetters = set (letters s),
      excluded = set (excludedLetters s),
      exactLength = (if truthy (length_str s) then Some (Number (length_str s)) else None),
      positionalPattern = (if truthy (pattern s) then Some (pattern s) else None)\<rparr>"

text \<open>
  The specification's rule for keeping a candidate, in its words: (exact length absent or
  the candidate's length equals it) and (required letters absent or every required
  character appears somewhere in the candidate) and (excluded letters absent or no
  excluded character appears anywhere in the candidate).
\<close>

definition spec_keeps :: "SearchConstraints \<Rightarrow> string \<Rightarrow> bool" where
  "spec_keeps c w =
     ((exactLength c = None \<or> exactLength c = Some (length w)) \<and>
      (requiredLetters c = {} \<or> (\<forall>l \<in> requiredLetters c. l \<in> set w)) \<and>
      (excluded c = {} \<or> \<not> (\<exists>l \<in> excluded c. l \<in> set w)))"

text \<open>
  The glossary's positional pattern: a fixed-length string of literal letters and
  wildcards that constrains each position of the word, a wildcard matching any single
  letter.
\<close>

definition spec_matchesPattern :: "string \<Rightarrow> string \<Rightarrow> bool" where
  "spec_matchesPattern p w = list_all2 (\<lambda>pc wc. pc = CHR ''?'' \<or> pc = wc) p w"

text \<open>
  The outcomes of a request that the specification calls a transport failure: the call
  itself fails (\<^verbatim>\<open>fetch\<close> rejects), or the response's status is not a success status.
\<close>

definition transportFailure :: "thrown + Response \<Rightarrow> bool" where
  "transportFailure reply =
     (case reply of Inl err \<Rightarrow> True | Inr response \<Rightarrow> \<not> ok response)"

text \<open>
  The shape of the four fields after sanitisation: required and excluded letters over
  \<^verbatim>\<open>A-Z\<close>, the pattern over \<^verbatim>\<open>A-Z\<close> and the wildcard \<^verbatim>\<open>?\<close>, the length over the
  decimal digits.
\<close>

definition sanitized :: "state \<Rightarrow> bool" where
  "sanitized s =
     (list_all isUpperAZ (letters s) \<and>
      list_all isUpperAZ (excludedLetters s) \<and>
      list_all isUpperAZ_or_wildcard (pattern s) \<and>
      list_all isDigit (length_str s))"

section \<open>Concrete inputs\<close>

text \<open>
  \<open>form l n p x\<close> is the state of a freshly rendered component whose four fields hold
  \<open>l\<close> (included letters), \<open>n\<close> (word length), \<open>p\<close> (word pattern) and \<open>x\<close> (excluded
  letters); \<open>items ws\<close> is a service answer with the words \<open>ws\<close> and no definitions.
\<close>

definition form :: "string \<Rightarrow> string \<Rightarrow> string \<Rightarrow> string \<Rightarrow> state" where
  "form l n p x =
     initialState\<lparr>letters := l, length_str := n, pattern := p, excludedLetters := x\<rparr>"

definition items :: "string list \<Rightarrow> WordItem list" where
  "items ws = map (\<lambda>w. \<lparr>word = w, defs = None\<rparr>) ws"

text \<open>
  Two environments: a service that answers every request with the same response, and a
  network on which every request fails with the same exception.
\<close>

definition answering :: "Response \<Rightarrow> fetch" where
  "answering response = (\<lambda>queryParams. Inr response)"

definition failing :: "thrown \<Rightarrow> fetch" where
  "failing err = (\<lambda>queryParams. Inl err)"

text \<open>
  An engine with the limit and the message of V8 on a 64-bit machine: strings of up to
  \<open>2^29 - 24\<close> code units, and \<^verbatim>\<open>Invalid string length\<close>.
\<close>

definition v8 :: engine where
  "v8 = \<lparr>maxStringLength = 536870888, rangeErrorMessage = (\<lambda>n. ''Invalid string length'')\<rparr>"

section \<open>Facts about the built-ins\<close>

lemma str_includes_single: "str_includes w [c] = (c \<in> set w)"
  by (induction w) (auto simp: str_includes_def)

lemma every_includes:
  "list_all (\<lambda>l. str_includes w l) (split_empty xs) = (set xs \<subseteq> set w)"
  by (induction xs) (simp_all add: split_empty_def str_includes_single)

lemma some_includes:
  "list_ex (\<lambda>l. str_includes w l) (split_empty xs) = (set xs \<inter> set w \<noteq> {})"
  by (induction xs) (simp_all add: split_empty_def str_includes_single)

lemma toUpperChar_idem: "toUpperChar (toUpperChar c) = toUpperChar c"
  by (auto simp: toUpperChar_def isLowerAZ_def less_eq_char_def)

lemma toUpperCase_idem: "toUpperCase (toUpperCase w) = toUpperCase w"
  by (simp add: toUpperCase_def toUpperChar_idem)

lemma concat_replicate_single: "concat (replicate n [c]) = replicate n c"
  by (induction n) simp_all

lemma repeat_single:
  "n \<le> maxStringLength engine \<Longrightarrow> repeat engine [c] n = Inr (replicate n c)"
  by (simp add: repeat_def concat_replicate_single)

lemma repeat_single_too_long:
  "maxStringLength engine < n \<Longrightarrow>
   repeat engine [c] n = Inl (Error (rangeErrorMessage engine n))"
  by (simp add: repeat_def)

lemma buildQueryParams_length_five:
  assumes "5 \<le> maxStringLength engine"
  shows "buildQueryParams engine (form [] ''5'' [] []) =
           Inr [(''sp'', ''?????''), (''max'', ''200''), (''md'', ''d'')]"
proof -
  have n: "Number ''5'' = 5" by code_simp
  have r: "replicate 5 (CHR ''?'') = ''?????''" by code_simp
  from assms have "repeat engine ''?'' 5 = Inr ''?????''"
    by (simp add: repeat_single r)
  then show ?thesis
    by (simp add: buildQueryParams_def form_def initialState_def truthy_def n
        params_append_def toLowerCase_def toLowerChar_def isUpperAZ_def)
qed

lemma buildQueryParams_v8_length_five:
  "buildQueryParams v8 (form [] ''5'' [] []) =
     Inr [(''sp'', ''?????''), (''max'', ''200''), (''md'', ''d'')]"
  by (rule buildQueryParams_length_five) (simp add: v8_def)

lemma toLowerCase_wildcards:
  "toLowerCase (replicate n (CHR ''?'')) = replicate n (CHR ''?'')"
  by (simp add: toLowerCase_def toLowerChar_def isUpperAZ_def)

lemma list_all_filter: "list_all P (filter P xs)"
  by (simp add: list_all_iff)

section \<open>The result filter against the specification\<close>

lemma keepItem_spec:
  "keepItem s item = spec_keeps (constraintsOf s) (toUpperCase (word item))"
  by (auto simp: keepItem_def spec_keeps_def constraintsOf_def truthy_def Let_def
      every_includes some_includes)

lemma keepItem_cong_upper:
  "toUpperCase (word a) = toUpperCase (word b) \<Longrightarrow> keepItem s a = keepItem s b"
  by (simp add: keepItem_def)

lemma filteredWords_pattern: "filteredWords (s\<lparr>pattern := p\<rparr>) data = filteredWords s data"
  by (simp add: filteredWords_def keepItem_def cong: filter_cong)

lemma filteredWords_sound:
  "w \<in> set (filteredWords s data) \<Longrightarrow> spec_keeps (constraintsOf s) w"
  by (auto simp: filteredWords_def keepItem_spec)

text \<open>
  Claim C1. For every list of candidates and every state of the form, the filter's
  output is the list of the candidates, uppercased, from which exactly those are kept
  that satisfy the specification's rule: (exact length absent or the candidate's length
  equals it) and (required letters absent or every one of them occurs in the candidate)
  and (excluded letters absent or none of them occurs in the candidate). The rule is
  applied to the uppercased candidate. The output is a \<^const>\<open>filter\<close> of the service's
  list: the order is the service's, and nothing is sorted or deduplicated.
\<close>

theorem filteredWords_spec:
  "filteredWords s data =
     filter (spec_keeps (constraintsOf s)) (map (\<lambda>item. toUpperCase (word item)) data)"
  by (induction data) (simp_all add: filteredWords_def keepItem_spec)

text \<open>
  The specification's example: of \<^verbatim>\<open>aural\<close>, \<^verbatim>\<open>plant\<close>, \<^verbatim>\<open>laugh\<close> with the required
  letters A, U, L the filter keeps AURAL and LAUGH.
\<close>

theorem filteredWords_spec_witness:
  "filteredWords (form ''AUL'' [] [] []) (items [''aural'', ''plant'', ''laugh''])
     = [''AURAL'', ''LAUGH''] \<and>
   filter (spec_keeps (constraintsOf (form ''AUL'' [] [] [])))
     (map (\<lambda>item. toUpperCase (word item)) (items [''aural'', ''plant'', ''laugh'']))
     = [''AURAL'', ''LAUGH'']"
proof -
  have "filteredWords (form ''AUL'' [] [] []) (items [''aural'', ''plant'', ''laugh''])
          = [''AURAL'', ''LAUGH'']"
    by code_simp
  with filteredWords_spec [of "form ''AUL'' [] [] []" "items [''aural'', ''plant'', ''laugh'']"]
  show ?thesis by simp
qed

text \<open>
  Claim C2 says that the filter re-checks every constraint, the positional pattern
  included, so that no candidate that violates a constraint is in the result. The
  filter's callback never reads \<^verbatim>\<open>pattern\<close>: with the length 5 and the pattern
  \<^verbatim>\<open>??RA?\<close>, a service answer \<^verbatim>\<open>hello\<close> is kept as HELLO, although its third and fourth
  letters are not R and A.
\<close>

theorem filter_ignores_pattern_counterexample:
  "''HELLO'' \<in> set (filteredWords (form [] ''5'' ''??RA?'' []) (items [''hello''])) \<and>
   positionalPattern (constraintsOf (form [] ''5'' ''??RA?'' [])) = Some ''??RA?'' \<and>
   \<not> spec_matchesPattern ''??RA?'' ''HELLO''"
  by code_simp

text \<open>
  Claim C2, as the code has it. The filter re-checks the exact length, the required
  letters and the excluded letters: every word of the result satisfies the
  specification's rule for these three. It does not check the positional pattern:
  the result is the same whatever the pattern field holds.
\<close>

theorem filteredWords_rechecks_length_and_letters:
  "(\<forall>w \<in> set (filteredWords s data). spec_keeps (constraintsOf s) w) \<and>
   filteredWords (s\<lparr>pattern := p\<rparr>) data = filteredWords s data"
  using filteredWords_sound filteredWords_pattern by blast

text \<open>
  With the length 5, the pattern \<^verbatim>\<open>??RA?\<close> and the excluded letters C, Y, T the answer
  \<^verbatim>\<open>zebra\<close>, \<^verbatim>\<open>cobra\<close> is filtered to ZEBRA, which satisfies the rule, and the result
  stays the same under the pattern \<^verbatim>\<open>Z?B??\<close>.
\<close>

theorem filteredWords_rechecks_length_and_letters_witness:
  "spec_keeps (constraintsOf (form [] ''5'' ''??RA?'' ''CYT'')) ''ZEBRA'' \<and>
   filteredWords (form [] ''5'' ''??RA?'' ''CYT'') (items [''zebra'', ''cobra'']) = [''ZEBRA''] \<and>
   filteredWords ((form [] ''5'' ''??RA?'' ''CYT'')\<lparr>pattern := ''Z?B??''\<rparr>)
     (items [''zebra'', ''cobra'']) = [''ZEBRA'']"
proof -
  have e: "filteredWords (form [] ''5'' ''??RA?'' ''CYT'') (items [''zebra'', ''cobra''])
             = [''ZEBRA'']"
    by code_simp
  from filteredWords_rechecks_length_and_letters
         [of "form [] ''5'' ''??RA?'' ''CYT''" "items [''zebra'', ''cobra'']" "''Z?B??''"]
  show ?thesis unfolding e by simp
qed

section \<open>Validation\<close>

text \<open>
  Claim C3. When the required letters, the pattern and the length are all absent
  (whatever the excluded letters are), the validator returns the empty-criteria message
  \<^verbatim>\<open>Enter at least one search criteria\<close>, and submitting only stores that message: no
  request is built and none is sent, whatever the network would answer and whatever
  the engine is.
\<close>

theorem empty_criteria_no_request:
  "letters s = [] \<Longrightarrow> pattern s = [] \<Longrightarrow> length_str s = [] \<Longrightarrow>
   validateInputs s = ''Enter at least one search criteria'' \<and>
   handleSubmit engine fetch s = (s\<lparr>error := ''Enter at least one search criteria''\<rparr>, [])"
  by (simp add: validateInputs_def handleSubmit_def truthy_def)

text \<open>The form with nothing but the excluded letters C, Y, T filled in.\<close>

theorem empty_criteria_no_request_witness:
  "letters (form [] [] [] ''CYT'') = [] \<and> pattern (form [] [] [] ''CYT'') = [] \<and>
   length_str (form [] [] [] ''CYT'') = [] \<and>
   excludedLetters (form [] [] [] ''CYT'') = ''CYT'' \<and>
   validateInputs (form [] [] [] ''CYT'') = ''Enter at least one search criteria'' \<and>
   snd (handleSubmit v8 (answering \<lparr>status = 200, json = Inr []\<rparr>) (form [] [] [] ''CYT''))
     = []"
proof -
  have h: "letters (form [] [] [] ''CYT'') = []" "pattern (form [] [] [] ''CYT'') = []"
    "length_str (form [] [] [] ''CYT'') = []" "excludedLetters (form [] [] [] ''CYT'') = ''CYT''"
    by (simp_all add: form_def initialState_def)
  from empty_criteria_no_request
         [OF h(1-3), of v8 "answering \<lparr>status = 200, json = Inr []\<rparr>"] h
  show ?thesis by simp
qed

text \<open>
  Claim C4. When a pattern and a length are both present and the pattern's length is
  not the number in the length field, the validator returns the length-mismatch message
  \<^verbatim>\<open>Pattern length must match word length\<close>; when the constraints are neither empty
  (letters, pattern and length all absent) nor mismatched in this way, it returns the
  empty string, which is its verdict "valid".
\<close>

theorem validateInputs_verdicts:
  "(pattern s \<noteq> [] \<and> length_str s \<noteq> [] \<and> length (pattern s) \<noteq> Number (length_str s)
      \<longrightarrow> validateInputs s = ''Pattern length must match word length'') \<and>
   (\<not> (letters s = [] \<and> pattern s = [] \<and> length_str s = []) \<and>
    \<not> (pattern s \<noteq> [] \<and> length_str s \<noteq> [] \<and>
       length (pattern s) \<noteq> Number (length_str s))
      \<longrightarrow> validateInputs s = [])"
  by (auto simp add: validateInputs_def truthy_def)

text \<open>The pattern \<^verbatim>\<open>??RA?\<close> against the length 4 (a mismatch) and the length 5 (valid).\<close>

theorem validateInputs_verdicts_witness:
  "validateInputs (form [] ''4'' ''??RA?'' []) = ''Pattern length must match word length'' \<and>
   validateInputs (form [] ''5'' ''??RA?'' []) = []"
proof -
  have a: "pattern (form [] ''4'' ''??RA?'' []) \<noteq> [] \<and>
      length_str (form [] ''4'' ''??RA?'' []) \<noteq> [] \<and>
      length (pattern (form [] ''4'' ''??RA?'' []))
        \<noteq> Number (length_str (form [] ''4'' ''??RA?'' []))"
    by code_simp
  have b: "\<not> (letters (form [] ''5'' ''??RA?'' []) = [] \<and>
        pattern (form [] ''5'' ''??RA?'' []) = [] \<and>
        length_str (form [] ''5'' ''??RA?'' []) = []) \<and>
    \<not> (pattern (form [] ''5'' ''??RA?'' []) \<noteq> [] \<and>
       length_str (form [] ''5'' ''??RA?'' []) \<noteq> [] \<and>
       length (pattern (form [] ''5'' ''??RA?'' []))
         \<noteq> Number (length_str (form [] ''5'' ''??RA?'' [])))"
    by code_simp
  from validateInputs_verdicts [of "form [] ''4'' ''??RA?'' []"] a
       validateInputs_verdicts [of "form [] ''5'' ''??RA?'' []"] b
  show ?thesis by blast
qed

section \<open>The query builder\<close>

text \<open>
  Claim C5. Submitting the form with the length 5, the pattern \<^verbatim>\<open>??RA?\<close> and the excluded
  letters C, Y, T passes validation and sends exactly one request, with the parameters
  \<^verbatim>\<open>sp=??ra?\<close>, \<^verbatim>\<open>q=-c -y -t\<close>, \<^verbatim>\<open>max=200\<close>, \<^verbatim>\<open>md=d\<close> in this order; when the service
  answers it with \<^verbatim>\<open>zebra\<close> and \<^verbatim>\<open>cobra\<close>, the submission ends with the results ZEBRA alone
  (COBRA has the excluded letter C), no message and the loading flag off. This holds on
  every engine.
\<close>

theorem end_to_end_example:
  "validateInputs (form [] ''5'' ''??RA?'' ''CYT'') = [] \<and>
   handleSubmit engine
     (answering \<lparr>status = 200, json = Inr (items [''zebra'', ''cobra''])\<rparr>)
     (form [] ''5'' ''??RA?'' ''CYT'') =
   (\<lparr>letters = [], length_str = ''5'', pattern = ''??RA?'', excludedLetters = ''CYT'',
     results = [''ZEBRA''], error = [], isLoading = False\<rparr>,
    [[(''sp'', ''??ra?''), (''q'', ''-c -y -t''), (''max'', ''200''), (''md'', ''d'')]])"
proof -
  let ?s = "form [] ''5'' ''??RA?'' ''CYT''"
  have v: "validateInputs ?s = []"
    by code_simp
  have s: "?s\<lparr>error := []\<rparr> = ?s"
    by (simp add: form_def initialState_def)
  have b: "buildQueryParams engine ?s =
      Inr [(''sp'', ''??ra?''), (''q'', ''-c -y -t''), (''max'', ''200''), (''md'', ''d'')]"
    by (simp add: buildQueryParams_def form_def initialState_def truthy_def
        params_append_def split_empty_def toLowerCase_def toLowerChar_def isUpperAZ_def
        String.char_of_eq_iff)
  have f: "filteredWords ?s (items [''zebra'', ''cobra'']) = [''ZEBRA'']"
    by code_simp
  have t: "fetchWords_try engine
             (answering \<lparr>status = 200, json = Inr (items [''zebra'', ''cobra''])\<rparr>) ?s
           = Inr [''ZEBRA'']"
    by (simp add: fetchWords_try_def b answering_def ok_def f)
  have r: "fetchWords engine
             (answering \<lparr>status = 200, json = Inr (items [''zebra'', ''cobra''])\<rparr>) ?s =
           (\<lparr>letters = [], length_str = ''5'', pattern = ''??RA?'', excludedLetters = ''CYT'',
             results = [''ZEBRA''], error = [], isLoading = False\<rparr>,
            [[(''sp'', ''??ra?''), (''q'', ''-c -y -t''), (''max'', ''200''), (''md'', ''d'')]])"
    by (simp add: fetchWords_def t b) (simp add: form_def initialState_def)
  show ?thesis
    by (simp add: v handleSubmit_def truthy_def s r)
qed

text \<open>
  Claim C6. The exact length of the specification is a positive integer (the length
  field has \<^verbatim>\<open>min=1\<close>). With no pattern and such a length \<open>n\<close> present, for which the
  engine can build a string (as it can for every length the form accepts), the query
  builder returns parameters, and their \<^verbatim>\<open>sp\<close> is the string of exactly \<open>n\<close>
  wildcards.
\<close>

theorem sp_wildcards:
  assumes "pattern s = []" and "length_str s \<noteq> []"
    and "0 < Number (length_str s)"
    and "Number (length_str s) \<le> maxStringLength engine"
  shows "\<exists>params. buildQueryParams engine s = Inr params \<and>
           map_of params ''sp'' = Some (replicate (Number (length_str s)) (CHR ''?''))"
  using assms
  by (simp add: buildQueryParams_def params_append_def truthy_def repeat_single
      toLowerCase_wildcards Let_def)

text \<open>The specification's example: the length 5 gives five wildcards.\<close>

theorem sp_wildcards_witness:
  "buildQueryParams v8 (form [] ''5'' [] []) =
     Inr [(''sp'', ''?????''), (''max'', ''200''), (''md'', ''d'')] \<and>
   map_of [(''sp'', ''?????''), (''max'', ''200''), (''md'', ''d'')] ''sp'' = Some ''?????'' \<and>
   Number (length_str (form [] ''5'' [] [])) = 5 \<and>
   0 < Number (length_str (form [] ''5'' [] [])) \<and>
   Number (length_str (form [] ''5'' [] [])) \<le> maxStringLength v8"
proof -
  have h: "pattern (form [] ''5'' [] []) = []" "length_str (form [] ''5'' [] []) \<noteq> []"
    by (simp_all add: form_def initialState_def)
  have n: "Number (length_str (form [] ''5'' [] [])) = 5"
    by code_simp
  have p: "0 < Number (length_str (form [] ''5'' [] []))"
      "Number (length_str (form [] ''5'' [] [])) \<le> maxStringLength v8"
    unfolding n by (simp_all add: v8_def)
  have b: "buildQueryParams v8 (form [] ''5'' [] []) =
      Inr [(''sp'', ''?????''), (''max'', ''200''), (''md'', ''d'')]"
    by (rule buildQueryParams_v8_length_five)
  from sp_wildcards [OF h p] b n p show ?thesis by simp
qed

text \<open>
  Outside these lengths the query builder does something else: for the length 0 (which
  the change handler lets into the field) the parameters have no \<^verbatim>\<open>sp\<close>, and for a
  length beyond the engine's limit \<^verbatim>\<open>"?".repeat\<close> throws, so that no request is sent and
  the message of the \<^verbatim>\<open>RangeError\<close> is stored.
\<close>

lemma buildQueryParams_length_zero:
  "pattern s = [] \<Longrightarrow> length_str s \<noteq> [] \<Longrightarrow> Number (length_str s) = 0 \<Longrightarrow>
   \<exists>params. buildQueryParams engine s = Inr params \<and> map_of params ''sp'' = None"
  by (simp add: buildQueryParams_def params_append_def truthy_def repeat_def Let_def)

lemma buildQueryParams_length_beyond_limit:
  "pattern s = [] \<Longrightarrow> length_str s \<noteq> [] \<Longrightarrow>
   maxStringLength engine < Number (length_str s) \<Longrightarrow>
   buildQueryParams engine s = Inl (Error (rangeErrorMessage engine (Number (length_str s))))"
  by (simp add: buildQueryParams_def truthy_def repeat_single_too_long)

lemma handleSubmit_length_beyond_limit:
  "pattern s = [] \<Longrightarrow> length_str s \<noteq> [] \<Longrightarrow>
   maxStringLength engine < Number (length_str s) \<Longrightarrow>
   handleSubmit engine fetch s =
     (s\<lparr>error := rangeErrorMessage engine (Number (length_str s)), isLoading := False\<rparr>, [])"
  by (simp add: handleSubmit_def validateInputs_def truthy_def fetchWords_def
      fetchWords_try_def buildQueryParams_length_beyond_limit)

section \<open>Idempotence of the result filter\<close>

text \<open>
  Claim C7. Filtering the filter's own output again, under the same constraints, gives
  that output unchanged. The output is a list of words and the input a list of items, so
  "its own output" is any list of items whose words are the output (whatever their
  definitions are).
\<close>

theorem filteredWords_idempotent:
  assumes "map word again = filteredWords s data"
  shows "filteredWords s again = filteredWords s data"
proof -
  have kept: "keepItem s i" if "i \<in> set again" for i
  proof -
    from that have "word i \<in> set (map word again)" by simp
    with assms obtain x where x: "x \<in> set data" "keepItem s x" "word i = toUpperCase (word x)"
      by (auto simp: filteredWords_def)
    from x(3) have "toUpperCase (word i) = toUpperCase (word x)"
      by (simp add: toUpperCase_idem)
    with x(2) keepItem_cong_upper [of i x s] show ?thesis by simp
  qed
  then have "filter (keepItem s) again = again"
    by (simp add: filter_id_conv)
  then have "filteredWords s again = map toUpperCase (map word again)"
    by (simp add: filteredWords_def)
  also have "\<dots> = map toUpperCase (filteredWords s data)"
    by (simp add: assms)
  also have "\<dots> = filteredWords s data"
    by (simp add: filteredWords_def toUpperCase_idem)
  finally show ?thesis .
qed

text \<open>The specification's example, filtered twice.\<close>

theorem filteredWords_idempotent_witness:
  "filteredWords (form ''AUL'' [] [] [])
     (items (filteredWords (form ''AUL'' [] [] []) (items [''aural'', ''plant'', ''laugh'']))) =
   filteredWords (form ''AUL'' [] [] []) (items [''aural'', ''plant'', ''laugh'']) \<and>
   filteredWords (form ''AUL'' [] [] []) (items [''aural'', ''plant'', ''laugh''])
     = [''AURAL'', ''LAUGH'']"
proof -
  have m: "map word (items ws) = ws" for ws
    by (simp add: items_def comp_def)
  have e: "filteredWords (form ''AUL'' [] [] []) (items [''aural'', ''plant'', ''laugh''])
             = [''AURAL'', ''LAUGH'']"
    by code_simp
  from filteredWords_idempotent
         [OF m [of "filteredWords (form ''AUL'' [] [] []) (items [''aural'', ''plant'', ''laugh''])"]]
       e
  show ?thesis by simp
qed

section \<open>Outcomes of a request\<close>

lemma fetchWords_try_failure:
  "buildQueryParams engine s = Inr queryParams \<Longrightarrow> transportFailure (fetch queryParams) \<Longrightarrow>
   isl (fetchWords_try engine fetch s)"
  by (auto simp: transportFailure_def fetchWords_try_def split: sum.splits)

lemma fetchWords_thrown:
  "fetchWords_try engine fetch s = Inl err \<Longrightarrow>
   fst (fetchWords engine fetch s) =
     s\<lparr>error := (case err of Error message \<Rightarrow> message | NonError \<Rightarrow> ''Failed to fetch words''),
       isLoading := False\<rparr>"
  by (simp add: fetchWords_def)

lemma fetchWords_stored:
  "fetchWords_try engine fetch s = Inr filtered \<Longrightarrow>
   fst (fetchWords engine fetch s) =
     s\<lparr>results := filtered,
       error := (if filtered \<noteq> [] then [] else ''No matches found''),
       isLoading := False\<rparr>"
  by (simp add: fetchWords_def)

text \<open>
  Claim C8. When the service answers the request with a success status and an array of
  which the filter keeps nothing (the empty array is one), the \<^verbatim>\<open>try\<close> block runs to its
  end: nothing is thrown, the stored result is the empty list and the notice is
  \<^verbatim>\<open>No matches found\<close> (the component keeps it in the same field as its error
  messages). A transport failure is another outcome: whenever the call fails or the
  status is not a success status, the block throws, and the stored result is left as
  it was.
\<close>

theorem empty_result_is_success:
  assumes "buildQueryParams engine s = Inr queryParams"
    and "fetch queryParams = Inr response" and "ok response"
    and "json response = Inr data" and "filteredWords s data = []"
  shows "fetchWords_try engine fetch s = Inr [] \<and>
         fst (fetchWords engine fetch s)
           = s\<lparr>results := [], error := ''No matches found'', isLoading := False\<rparr> \<and>
         (\<forall>engine' fetch' s' queryParams'.
            buildQueryParams engine' s' = Inr queryParams' \<and>
            transportFailure (fetch' queryParams') \<longrightarrow>
            isl (fetchWords_try engine' fetch' s') \<and>
            results (fst (fetchWords engine' fetch' s')) = results s')"
proof -
  from assms(3) have "status response \<noteq> 429" by (auto simp: ok_def)
  with assms have t: "fetchWords_try engine fetch s = Inr []"
    by (simp add: fetchWords_try_def)
  have "isl (fetchWords_try engine' fetch' s') \<and>
        results (fst (fetchWords engine' fetch' s')) = results s'"
    if "buildQueryParams engine' s' = Inr queryParams'"
      and "transportFailure (fetch' queryParams')" for engine' fetch' s' queryParams'
  proof -
    from that have i: "isl (fetchWords_try engine' fetch' s')"
      by (rule fetchWords_try_failure)
    then obtain err where "fetchWords_try engine' fetch' s' = Inl err"
      by (cases "fetchWords_try engine' fetch' s'") auto
    then have "results (fst (fetchWords engine' fetch' s')) = results s'"
      by (simp add: fetchWords_thrown)
    with i show ?thesis by simp
  qed
  with t fetchWords_stored [OF t] show ?thesis by simp
qed

text \<open>
  An empty array under status 200, against a rejected call and a status 503.
\<close>

theorem empty_result_is_success_witness:
  "fetchWords_try v8 (answering \<lparr>status = 200, json = Inr []\<rparr>) (form [] ''5'' [] []) = Inr [] \<and>
   results (fst (fetchWords v8 (answering \<lparr>status = 200, json = Inr []\<rparr>) (form [] ''5'' [] [])))
     = [] \<and>
   error (fst (fetchWords v8 (answering \<lparr>status = 200, json = Inr []\<rparr>) (form [] ''5'' [] [])))
     = ''No matches found'' \<and>
   isl (fetchWords_try v8 (failing (Error ''Failed to fetch'')) (form [] ''5'' [] [])) \<and>
   isl (fetchWords_try v8 (answering \<lparr>status = 503, json = Inr []\<rparr>) (form [] ''5'' [] []))"
proof -
  let ?r = "\<lparr>status = 200, json = Inr []\<rparr> :: Response"
  let ?s = "form [] ''5'' [] []"
  let ?q = "[(''sp'', ''?????''), (''max'', ''200''), (''md'', ''d'')]"
  have q: "buildQueryParams v8 ?s = Inr ?q" by (rule buildQueryParams_v8_length_five)
  have a: "answering ?r ?q = Inr ?r" by (simp add: answering_def)
  have b: "ok ?r" by (simp add: ok_def)
  have c: "json ?r = Inr []" by simp
  have d: "filteredWords ?s [] = []" by (simp add: filteredWords_def)
  have f1: "transportFailure (failing (Error ''Failed to fetch'') ?q)"
    by (simp add: transportFailure_def failing_def)
  have f2: "transportFailure (answering \<lparr>status = 503, json = Inr []\<rparr> ?q)"
    by (simp add: transportFailure_def answering_def ok_def)
  from empty_result_is_success [of v8 ?s ?q "answering ?r" ?r "[]"] q a b c d
  have "fetchWords_try v8 (answering ?r) ?s = Inr [] \<and>
        fst (fetchWords v8 (answering ?r) ?s)
          = ?s\<lparr>results := [], error := ''No matches found'', isLoading := False\<rparr> \<and>
        (\<forall>engine' fetch' s' queryParams'.
            buildQueryParams engine' s' = Inr queryParams' \<and>
            transportFailure (fetch' queryParams') \<longrightarrow>
            isl (fetchWords_try engine' fetch' s') \<and>
            results (fst (fetchWords engine' fetch' s')) = results s')"
    by simp
  with q f1 f2 show ?thesis by auto
qed

text \<open>
  Claim C9 names the messages \<^verbatim>\<open>rate limit exceeded\<close> for status 429 and
  \<^verbatim>\<open>failed to fetch\<close> for the other statuses that are not a success. The messages the
  component stores are other strings.
\<close>

theorem status_messages_counterexample:
  "error (fst (fetchWords v8 (answering \<lparr>status = 429, json = Inr []\<rparr>) (form [] ''5'' [] [])))
     \<noteq> ''rate limit exceeded'' \<and>
   error (fst (fetchWords v8 (answering \<lparr>status = 500, json = Inr []\<rparr>) (form [] ''5'' [] [])))
     \<noteq> ''failed to fetch''"
  by (simp add: fetchWords_def fetchWords_try_def buildQueryParams_v8_length_five
      answering_def ok_def)

text \<open>
  Claim C9, as the code has it. For every response to the request: status 429 makes the
  request fail with the message \<^verbatim>\<open>API rate limit exceeded\<close>; any other status outside
  200 to 299 makes it fail with the message \<^verbatim>\<open>Failed to fetch words\<close>; under a status
  from 200 to 299 the body is parsed as the array of candidates, which is then filtered
  (or the exception of the parsing is thrown).
\<close>

theorem status_handling:
  assumes "buildQueryParams engine s = Inr queryParams"
    and "fetch queryParams = Inr response"
  shows "(status response = 429 \<longrightarrow>
            fetchWords_try engine fetch s = Inl (Error ''API rate limit exceeded'') \<and>
            fst (fetchWords engine fetch s)
              = s\<lparr>error := ''API rate limit exceeded'', isLoading := False\<rparr>) \<and>
         (status response \<noteq> 429 \<and> \<not> ok response \<longrightarrow>
            fetchWords_try engine fetch s = Inl (Error ''Failed to fetch words'') \<and>
            fst (fetchWords engine fetch s)
              = s\<lparr>error := ''Failed to fetch words'', isLoading := False\<rparr>) \<and>
         (ok response \<longrightarrow>
            fetchWords_try engine fetch s =
              (case json response of
                 Inl err \<Rightarrow> Inl err
               | Inr data \<Rightarrow> Inr (filteredWords s data)))"
proof (intro conjI impI)
  assume "status response = 429"
  with assms show t: "fetchWords_try engine fetch s = Inl (Error ''API rate limit exceeded'')"
    by (simp add: fetchWords_try_def)
  show "fst (fetchWords engine fetch s)
          = s\<lparr>error := ''API rate limit exceeded'', isLoading := False\<rparr>"
    using fetchWords_thrown [OF t] by simp
next
  assume "status response \<noteq> 429 \<and> \<not> ok response"
  with assms show t: "fetchWords_try engine fetch s = Inl (Error ''Failed to fetch words'')"
    by (simp add: fetchWords_try_def)
  show "fst (fetchWords engine fetch s)
          = s\<lparr>error := ''Failed to fetch words'', isLoading := False\<rparr>"
    using fetchWords_thrown [OF t] by simp
next
  assume "ok response"
  then have "status response \<noteq> 429" by (auto simp: ok_def)
  with assms \<open>ok response\<close> show "fetchWords_try engine fetch s =
      (case json response of Inl err \<Rightarrow> Inl err | Inr data \<Rightarrow> Inr (filteredWords s data))"
    by (simp add: fetchWords_try_def)
qed

text \<open>The statuses 429, 500 and 200.\<close>

theorem status_handling_witness:
  "error (fst (fetchWords v8 (answering \<lparr>status = 429, json = Inr []\<rparr>) (form [] ''5'' [] [])))
     = ''API rate limit exceeded'' \<and>
   error (fst (fetchWords v8 (answering \<lparr>status = 500, json = Inr []\<rparr>) (form [] ''5'' [] [])))
     = ''Failed to fetch words'' \<and>
   fetchWords_try v8 (answering \<lparr>status = 200, json = Inr (items [''zebra''])\<rparr>)
     (form [] ''5'' [] []) = Inr [''ZEBRA'']"
proof -
  let ?s = "form [] ''5'' [] []"
  let ?q = "[(''sp'', ''?????''), (''max'', ''200''), (''md'', ''d'')]"
  have q: "buildQueryParams v8 ?s = Inr ?q" by (rule buildQueryParams_v8_length_five)
  have a: "answering r ?q = Inr r" for r by (simp add: answering_def)
  have e: "filteredWords ?s (items [''zebra'']) = [''ZEBRA'']" by code_simp
  from status_handling [of v8 ?s ?q "answering \<lparr>status = 429, json = Inr []\<rparr>"
         "\<lparr>status = 429, json = Inr []\<rparr>"]
       status_handling [of v8 ?s ?q "answering \<lparr>status = 500, json = Inr []\<rparr>"
         "\<lparr>status = 500, json = Inr []\<rparr>"]
       status_handling [of v8 ?s ?q "answering \<lparr>status = 200, json = Inr (items [''zebra''])\<rparr>"
         "\<lparr>status = 200, json = Inr (items [''zebra''])\<rparr>"]
  show ?thesis by (simp add: q a ok_def e)
qed

section \<open>Sanitised input\<close>

lemma handleSubmit_fields:
  "letters (fst (handleSubmit engine fetch s)) = letters s \<and>
   excludedLetters (fst (handleSubmit engine fetch s)) = excludedLetters s \<and>
   pattern (fst (handleSubmit engine fetch s)) = pattern s \<and>
   length_str (fst (handleSubmit engine fetch s)) = length_str s"
  by (simp add: handleSubmit_def fetchWords_def Let_def split: sum.splits)

lemma sanitized_step: "sanitized s \<Longrightarrow> sanitized (step engine fetch s ev)"
  by (cases ev) (simp_all add: sanitized_def list_all_filter handleSubmit_fields)

lemma sanitized_foldl: "sanitized s \<Longrightarrow> sanitized (foldl (step engine fetch) s evs)"
  by (induction evs arbitrary: s) (simp_all add: sanitized_step)

text \<open>
  Claim C10. After every sequence of events (changes of the four fields with any input
  text, and submissions, whatever the network answers and whatever the engine is) the
  required and the excluded letters hold only \<^verbatim>\<open>A-Z\<close>, the pattern only \<^verbatim>\<open>A-Z\<close> and \<^verbatim>\<open>?\<close>,
  and the length only decimal digits. The validator, the query builder and the result
  filter run only in a submission, on such a state, so every constraint they read has
  this shape.
\<close>

theorem fields_sanitized: "sanitized (run engine fetch evs)"
  unfolding run_def
  by (rule sanitized_foldl) (simp add: sanitized_def initialState_def)

text \<open>
  Typing \<^verbatim>\<open>a1 e\<close>, \<^verbatim>\<open>5x\<close>, \<^verbatim>\<open>??r-a?\<close> and \<^verbatim>\<open>c,y t\<close> into the four fields and submitting.
\<close>

theorem fields_sanitized_witness:
  "sanitized (run v8 (answering \<lparr>status = 200, json = Inr (items [''zebra'', ''cobra''])\<rparr>)
     [ChangeLetters ''a1 e'', ChangeLength ''5x'', ChangePattern ''??r-a?'',
      ChangeExcludedLetters ''c,y t'', Submit]) \<and>
   run v8 (answering \<lparr>status = 200, json = Inr (items [''zebra'', ''cobra''])\<rparr>)
     [ChangeLetters ''a1 e'', ChangeLength ''5x'', ChangePattern ''??r-a?'',
      ChangeExcludedLetters ''c,y t'', Submit] =
   \<lparr>letters = ''AE'', length_str = ''5'', pattern = ''??RA?'', excludedLetters = ''CYT'',
    results = [''ZEBRA''], error = [], isLoading = False\<rparr>"
proof -
  have "run engine (answering \<lparr>status = 200, json = Inr (items [''zebra'', ''cobra''])\<rparr>)
     [ChangeLetters ''a1 e'', ChangeLength ''5x'', ChangePattern ''??r-a?'',
      ChangeExcludedLetters ''c,y t'', Submit] =
   \<lparr>letters = ''AE'', length_str = ''5'', pattern = ''??RA?'', excludedLetters = ''CYT'',
    results = [''ZEBRA''], error = [], isLoading = False\<rparr>" for engine
    by code_simp
  with fields_sanitized
         [of v8 "answering \<lparr>status = 200, json = Inr (items [''zebra'', ''cobra''])\<rparr>"
             "[ChangeLetters ''a1 e'', ChangeLength ''5x'', ChangePattern ''??r-a?'',
               ChangeExcludedLetters ''c,y t'', Submit]"]
  show ?thesis by simp
qed

end
